theory Spec2Isabelle
  imports Complex_Main
begin

section \<open>The package root of qiskit_algorithms\<close>

text \<open>
  The repository's source is one file, \<^verbatim>\<open>src/qiskit_algorithms/__init__.py\<close>. It
  computes nothing: Python reads from it a docstring, a sequence of \<^verbatim>\<open>from . import\<close>
  statements and one assignment to \<^verbatim>\<open>__all__\<close>. The embedding is therefore the
  module as data, in the order of the file: its physical lines (comments, empty lines,
  statements), the statements as Python's parser sees them, and the docstring as the
  reStructuredText it is (headings, paragraphs with their cross references,
  \<^verbatim>\<open>autosummary\<close> directives with their entries).
\<close>

subsection \<open>The docstring\<close>

text \<open>A cross reference \<^verbatim>\<open>:role:`target`\<close> of a paragraph: its role and its target.\<close>

type_synonym xref = "string \<times> string"

text \<open>
  The blocks of the docstring. A heading is its text and the character of its
  adornment, overlined (three lines) or only underlined (two lines). A paragraph is
  kept as its number of lines and the cross references it holds. An autosummary
  directive is its option lines and its entries; between them stands one empty line.
\<close>

datatype doc_item =
    Heading bool char string
  | Prose nat "xref list"
  | CurrentModule string
  | Autosummary "string list" "string list"
  | Blank nat

fun doc_item_lines :: "doc_item \<Rightarrow> nat" where
  "doc_item_lines (Heading overlined c t) = (if overlined then 3 else 2)"
| "doc_item_lines (Prose n xs) = n"
| "doc_item_lines (CurrentModule m) = 1"
| "doc_item_lines (Autosummary opts entries) = 1 + length opts + 1 + length entries"
| "doc_item_lines (Blank n) = n"

text \<open>The two option blocks the file's autosummary directives use.\<close>

definition toctree :: "string list" where
  "toctree = ['':toctree: ../stubs/'']"

definition toctree_nosignatures :: "string list" where
  "toctree_nosignatures = ['':toctree: ../stubs/'', '':nosignatures:'']"

text \<open>
  The reference \<^verbatim>\<open>:class:`.QuantumInstance`\<close>, which the paragraphs of the
  primitive-based and legacy groups repeat.
\<close>

definition quantum_instance_ref :: xref where
  "quantum_instance_ref = (''class'', ''.QuantumInstance'')"

text \<open>Lines 14 to 298 of the file: the docstring between its two quote lines.\<close>

definition module_doc :: "doc_item list" where
  "module_doc =
   [ Heading True (CHR ''='') ''Algorithms (:mod:`qiskit_algorithms`)'',
     Prose 3 [],
     Blank 1,
     Prose 4 [(''mod'', ''~qiskit_algorithms.optimizers'')],
     Blank 1,
     Prose 6 [(''class'', ''~qiskit_algorithms.QuantumInstance'')],
     Blank 1,
     CurrentModule ''qiskit_algorithms'',
     Blank 1,
     Heading False (CHR ''='') ''Algorithms'',
     Blank 1,
     Prose 2 [],
     Blank 2,
     Heading False (CHR ''-'') ''Amplitude Amplifiers'',
     Blank 1,
     Autosummary toctree_nosignatures
       [''AmplificationProblem'', ''AmplitudeAmplifier'', ''Grover'', ''GroverResult''],
     Blank 2,
     Heading False (CHR ''-'') ''Amplitude Estimators'',
     Blank 1,
     Autosummary toctree_nosignatures
       [''AmplitudeEstimator'', ''AmplitudeEstimatorResult'', ''AmplitudeEstimation'',
        ''AmplitudeEstimationResult'', ''EstimationProblem'', ''FasterAmplitudeEstimation'',
        ''FasterAmplitudeEstimationResult'', ''IterativeAmplitudeEstimation'',
        ''IterativeAmplitudeEstimationResult'', ''MaximumLikelihoodAmplitudeEstimation'',
        ''MaximumLikelihoodAmplitudeEstimationResult''],
     Blank 2,
     Heading False (CHR ''-'') ''Eigensolvers'',
     Blank 1,
     Prose 3 [],
     Blank 1,
     Heading False (CHR ''+'') ''Primitive-based Eigensolvers'',
     Blank 1,
     Prose 3 [quantum_instance_ref, quantum_instance_ref],
     Blank 1,
     Autosummary toctree [''eigensolvers''],
     Blank 2,
     Heading False (CHR ''+'') ''Legacy Eigensolvers'',
     Blank 1,
     Prose 2 [quantum_instance_ref],
     Blank 1,
     Autosummary toctree_nosignatures
       [''Eigensolver'', ''EigensolverResult'', ''NumPyEigensolver'', ''VQD'', ''VQDResult''],
     Blank 2,
     Heading False (CHR ''-'') ''Time Evolvers'',
     Blank 1,
     Prose 3 [],
     Blank 1,
     Heading False (CHR ''+'') ''Primitive-based Time Evolvers'',
     Blank 1,
     Prose 3 [quantum_instance_ref, quantum_instance_ref],
     Blank 1,
     Autosummary toctree_nosignatures
       [''RealTimeEvolver'', ''ImaginaryTimeEvolver'', ''TimeEvolutionResult'',
        ''TimeEvolutionProblem'', ''PVQD'', ''PVQDResult'', ''SciPyImaginaryEvolver'',
        ''SciPyRealEvolver'', ''VarQITE'', ''VarQRTE''],
     Blank 1,
     Heading False (CHR ''+'') ''Legacy Time Evolvers'',
     Blank 1,
     Prose 2 [quantum_instance_ref],
     Blank 1,
     Autosummary toctree_nosignatures
       [''RealEvolver'', ''ImaginaryEvolver'', ''TrotterQRTE'', ''EvolutionResult'',
        ''EvolutionProblem''],
     Blank 2,
     Heading False (CHR ''+'') ''Variational Quantum Time Evolution'',
     Blank 1,
     Prose 2 [(''class'', ''.VarQITE''), (''class'', ''.VarQRTE'')],
     Blank 1,
     Autosummary toctree [''time_evolvers.variational''],
     Blank 2,
     Heading False (CHR ''+'') ''Trotterization-based Quantum Real Time Evolution'',
     Blank 1,
     Prose 2 [(''class'', ''~.time_evolvers.TrotterQRTE'')],
     Blank 1,
     Autosummary toctree [''time_evolvers.trotterization''],
     Blank 2,
     Heading False (CHR ''-'') ''Gradients'',
     Blank 1,
     Prose 1 [],
     Blank 1,
     Autosummary toctree [''gradients''],
     Blank 2,
     Heading False (CHR ''-'') ''Minimum Eigensolvers'',
     Blank 1,
     Prose 1 [],
     Blank 1,
     Heading False (CHR ''+'') ''Primitive-based Minimum Eigensolvers'',
     Blank 1,
     Prose 4 [quantum_instance_ref, quantum_instance_ref],
     Blank 1,
     Autosummary toctree [''minimum_eigensolvers''],
     Blank 2,
     Heading False (CHR ''+'') ''Legacy Minimum Eigensolvers'',
     Blank 1,
     Prose 2 [quantum_instance_ref],
     Blank 1,
     Autosummary toctree_nosignatures
       [''MinimumEigensolver'', ''MinimumEigensolverResult'', ''NumPyMinimumEigensolver'',
        ''QAOA'', ''VQE''],
     Blank 2,
     Heading False (CHR ''-'') ''Optimizers'',
     Blank 1,
     Prose 1 [],
     Blank 1,
     Autosummary toctree [''optimizers''],
     Blank 2,
     Heading False (CHR ''-'') ''Phase Estimators'',
     Blank 1,
     Prose 1 [],
     Blank 1,
     Autosummary toctree_nosignatures
       [''HamiltonianPhaseEstimation'', ''HamiltonianPhaseEstimationResult'',
        ''PhaseEstimationScale'', ''PhaseEstimation'', ''PhaseEstimationResult'',
        ''IterativePhaseEstimation''],
     Blank 2,
     Heading False (CHR ''-'') ''State Fidelities'',
     Blank 1,
     Prose 1 [],
     Blank 1,
     Autosummary toctree [''state_fidelities''],
     Blank 2,
     Heading False (CHR ''-'') ''Exceptions'',
     Blank 1,
     Autosummary toctree [''AlgorithmError''],
     Blank 2,
     Heading False (CHR ''-'') ''Utility methods'',
     Blank 1,
     Prose 1 [],
     Blank 1,
     Autosummary toctree [''eval_observables'', ''estimate_observables''],
     Blank 2,
     Heading False (CHR ''-'') ''Utility classes'',
     Blank 1,
     Prose 1 [],
     Blank 1,
     Autosummary toctree [''AlgorithmJob''],
     Blank 1 ]"

subsection \<open>Statements and physical lines\<close>

text \<open>
  The top-level statements a Python module can hold, as far as this file and the claims
  about it need them told apart. \<open>ImportFrom level m names wrapped\<close> is
  \<^verbatim>\<open>from .m import names\<close> (\<open>level\<close> dots), on one line or wrapped in parentheses
  with one name a line; \<open>AssignList x items\<close> is \<^verbatim>\<open>x = [items]\<close>, one string a line.
  A function definition, a class definition and any other statement carry their name
  (or nothing) and their number of lines.
\<close>

datatype stmt =
    DocString "doc_item list"
  | ImportFrom nat string "string list" bool
  | AssignList string "string list"
  | FunctionDef string nat
  | ClassDef string nat
  | OtherStmt nat

fun stmt_lines :: "stmt \<Rightarrow> nat" where
  "stmt_lines (DocString items) = 1 + sum_list (map doc_item_lines items) + 1"
| "stmt_lines (ImportFrom level m names wrapped) = (if wrapped then length names + 2 else 1)"
| "stmt_lines (AssignList x items) = length items + 2"
| "stmt_lines (FunctionDef f n) = n"
| "stmt_lines (ClassDef c n) = n"
| "stmt_lines (OtherStmt n) = n"

datatype src_item = Comment nat | Empty nat | Stmt stmt

fun src_item_lines :: "src_item \<Rightarrow> nat" where
  "src_item_lines (Comment n) = n"
| "src_item_lines (Empty n) = n"
| "src_item_lines (Stmt s) = stmt_lines s"

text \<open>The file, lines 1 to 384.\<close>

definition qiskit_algorithms_init :: "src_item list" where
  "qiskit_algorithms_init =
   [ Comment 11,
     Empty 1,
     Stmt (DocString module_doc),
     Stmt (ImportFrom 1 ''algorithm_job'' [''AlgorithmJob''] False),
     Stmt (ImportFrom 1 ''algorithm_result'' [''AlgorithmResult''] False),
     Stmt (ImportFrom 1 ''variational_algorithm''
             [''VariationalAlgorithm'', ''VariationalResult''] False),
     Stmt (ImportFrom 1 ''amplitude_amplifiers''
             [''Grover'', ''GroverResult'', ''AmplificationProblem'', ''AmplitudeAmplifier'']
             False),
     Stmt (ImportFrom 1 ''amplitude_estimators''
             [''AmplitudeEstimator'', ''AmplitudeEstimatorResult'', ''AmplitudeEstimation'',
              ''AmplitudeEstimationResult'', ''FasterAmplitudeEstimation'',
              ''FasterAmplitudeEstimationResult'', ''IterativeAmplitudeEstimation'',
              ''IterativeAmplitudeEstimationResult'', ''MaximumLikelihoodAmplitudeEstimation'',
              ''MaximumLikelihoodAmplitudeEstimationResult'', ''EstimationProblem'']
             True),
     Empty 1,
     Stmt (ImportFrom 1 ''phase_estimators''
             [''HamiltonianPhaseEstimation'', ''HamiltonianPhaseEstimationResult'',
              ''PhaseEstimationScale'', ''PhaseEstimation'', ''PhaseEstimationResult'',
              ''IterativePhaseEstimation'']
             True),
     Stmt (ImportFrom 1 ''exceptions'' [''AlgorithmError''] False),
     Stmt (ImportFrom 1 ''observables_evaluator'' [''estimate_observables''] False),
     Empty 1,
     Stmt (ImportFrom 1 ''time_evolvers''
             [''ImaginaryTimeEvolver'', ''RealTimeEvolver'', ''TimeEvolutionProblem'',
              ''TimeEvolutionResult'', ''PVQD'', ''PVQDResult'', ''SciPyImaginaryEvolver'',
              ''SciPyRealEvolver'', ''VarQITE'', ''VarQRTE'', ''VarQTE'', ''VarQTEResult'']
             True),
     Empty 1,
     Stmt (AssignList ''__all__''
             [''AlgorithmJob'', ''AlgorithmResult'', ''VariationalAlgorithm'',
              ''VariationalResult'', ''AmplitudeAmplifier'', ''AmplificationProblem'',
              ''Grover'', ''GroverResult'', ''AmplitudeEstimator'',
              ''AmplitudeEstimatorResult'', ''AmplitudeEstimation'',
              ''AmplitudeEstimationResult'', ''FasterAmplitudeEstimation'',
              ''FasterAmplitudeEstimationResult'', ''IterativeAmplitudeEstimation'',
              ''IterativeAmplitudeEstimationResult'', ''MaximumLikelihoodAmplitudeEstimation'',
              ''MaximumLikelihoodAmplitudeEstimationResult'', ''EstimationProblem'',
              ''RealTimeEvolver'', ''ImaginaryTimeEvolver'', ''TimeEvolutionResult'',
              ''TimeEvolutionProblem'', ''HamiltonianPhaseEstimation'',
              ''HamiltonianPhaseEstimationResult'', ''PhaseEstimationScale'',
              ''PhaseEstimation'', ''PhaseEstimationResult'', ''PVQD'', ''PVQDResult'',
              ''SciPyRealEvolver'', ''SciPyImaginaryEvolver'', ''IterativePhaseEstimation'',
              ''AlgorithmError'', ''estimate_observables'', ''VarQITE'', ''VarQRTE'',
              ''VarQTE'', ''VarQTEResult'']) ]"

subsection \<open>What Python binds\<close>

fun statements :: "src_item list \<Rightarrow> stmt list" where
  "statements [] = []"
| "statements (Stmt s # r) = s # statements r"
| "statements (x # r) = statements r"

definition file_lines :: "src_item list \<Rightarrow> nat" where
  "file_lines f = sum_list (map src_item_lines f)"

text \<open>
  The first and the last line of every statement, counting lines from \<open>k\<close>: what
  Python's parser records as \<^verbatim>\<open>lineno\<close> and \<^verbatim>\<open>end_lineno\<close>.
\<close>

fun spans_from :: "nat \<Rightarrow> src_item list \<Rightarrow> (nat \<times> nat) list" where
  "spans_from k [] = []"
| "spans_from k (Stmt s # r) = (k, k + stmt_lines s - 1) # spans_from (k + stmt_lines s) r"
| "spans_from k (x # r) = spans_from (k + src_item_lines x) r"

definition stmt_spans :: "src_item list \<Rightarrow> (nat \<times> nat) list" where
  "stmt_spans f = spans_from 1 f"

fun is_docstring :: "stmt \<Rightarrow> bool" where
  "is_docstring (DocString d) = True"
| "is_docstring s = False"

fun is_import :: "stmt \<Rightarrow> bool" where
  "is_import (ImportFrom level m names wrapped) = True"
| "is_import s = False"

fun is_all_assignment :: "stmt \<Rightarrow> bool" where
  "is_all_assignment (AssignList x items) = (x = ''__all__'')"
| "is_all_assignment s = False"

text \<open>A statement that defines a function or a class, or does anything else.\<close>

fun defines_code :: "stmt \<Rightarrow> bool" where
  "defines_code (FunctionDef f n) = True"
| "defines_code (ClassDef c n) = True"
| "defines_code (OtherStmt n) = True"
| "defines_code s = False"

text \<open>
  \<^verbatim>\<open>__doc__\<close>: the string that is the module's first statement (Python binds
  \<^verbatim>\<open>None\<close> when the first statement is anything else).
\<close>

fun module_docstring :: "stmt list \<Rightarrow> doc_item list option" where
  "module_docstring (DocString d # r) = Some d"
| "module_docstring ss = None"

text \<open>The names a statement imports into the module's namespace.\<close>

fun stmt_imports :: "stmt \<Rightarrow> string list" where
  "stmt_imports (ImportFrom level m names wrapped) = names"
| "stmt_imports s = []"

definition imported_names :: "src_item list \<Rightarrow> string list" where
  "imported_names f = concat (map stmt_imports (statements f))"

text \<open>The names imported from the sibling module \<open>m\<close> (\<^verbatim>\<open>from .m import ...\<close>).\<close>

fun stmt_imports_from :: "string \<Rightarrow> stmt \<Rightarrow> string list" where
  "stmt_imports_from m (ImportFrom level m' names wrapped) =
     (if level = 1 \<and> m' = m then names else [])"
| "stmt_imports_from m s = []"

definition imported_from :: "src_item list \<Rightarrow> string \<Rightarrow> string list" where
  "imported_from f m = concat (map (stmt_imports_from m) (statements f))"

text \<open>
  The list bound to \<^verbatim>\<open>__all__\<close> once the module has run: the last assignment to
  it stands; \<open>None\<close> when there is none.
\<close>

fun dunder_all :: "stmt list \<Rightarrow> string list option" where
  "dunder_all [] = None"
| "dunder_all (AssignList x items # r) =
     (case dunder_all r of
        Some later \<Rightarrow> Some later
      | None \<Rightarrow> if x = ''__all__'' then Some items else None)"
| "dunder_all (s # r) = dunder_all r"

definition module_all :: "src_item list \<Rightarrow> string list" where
  "module_all f = (case dunder_all (statements f) of Some items \<Rightarrow> items | None \<Rightarrow> [])"

text \<open>
  A name is exported by the package root when a module-level import binds it and
  \<^verbatim>\<open>__all__\<close> lists it.
\<close>

definition exported :: "src_item list \<Rightarrow> string \<Rightarrow> bool" where
  "exported f n = (n \<in> set (imported_names f) \<and> n \<in> set (module_all f))"

subsection \<open>What the docstring documents\<close>

fun autosummary_entries :: "doc_item list \<Rightarrow> string list" where
  "autosummary_entries [] = []"
| "autosummary_entries (Autosummary opts entries # r) = entries @ autosummary_entries r"
| "autosummary_entries (x # r) = autosummary_entries r"

fun xrefs :: "doc_item list \<Rightarrow> xref list" where
  "xrefs [] = []"
| "xrefs (Prose n xs # r) = xs @ xrefs r"
| "xrefs (x # r) = xrefs r"

text \<open>
  The name a cross reference shows: the target's last dotted component, a leading
  \<^verbatim>\<open>~\<close> or \<^verbatim>\<open>.\<close> dropped.
\<close>

definition xref_name :: "xref \<Rightarrow> string" where
  "xref_name x = rev (takeWhile (\<lambda>c. c \<noteq> CHR ''.'' \<and> c \<noteq> CHR ''~'') (rev (snd x)))"

definition doc_of :: "src_item list \<Rightarrow> doc_item list" where
  "doc_of f = (case module_docstring (statements f) of Some d \<Rightarrow> d | None \<Rightarrow> [])"

text \<open>
  The documented surface: a name is listed when an autosummary directive has it as an
  entry, referenced when a paragraph's cross reference shows it.
\<close>

definition listed :: "src_item list \<Rightarrow> string \<Rightarrow> bool" where
  "listed f n = (n \<in> set (autosummary_entries (doc_of f)))"

definition referenced :: "src_item list \<Rightarrow> string \<Rightarrow> bool" where
  "referenced f n = (n \<in> set (map xref_name (xrefs (doc_of f))))"

definition documented :: "src_item list \<Rightarrow> string \<Rightarrow> bool" where
  "documented f n = (listed f n \<or> referenced f n)"

text \<open>
  Sections. reStructuredText ranks an adornment style (overlined or not, and the
  character) by where it first appears: the first style met is the top level.
\<close>

type_synonym style = "bool \<times> char"

fun styles_seen :: "style list \<Rightarrow> doc_item list \<Rightarrow> style list" where
  "styles_seen acc [] = acc"
| "styles_seen acc (Heading overlined c t # r) =
     styles_seen (if (overlined, c) \<in> set acc then acc else acc @ [(overlined, c)]) r"
| "styles_seen acc (x # r) = styles_seen acc r"

fun index_of :: "'a \<Rightarrow> 'a list \<Rightarrow> nat" where
  "index_of x [] = 0"
| "index_of x (y # ys) = (if x = y then 0 else Suc (index_of x ys))"

text \<open>The headings in order, each with its level (0 is the top).\<close>

fun outline_with :: "style list \<Rightarrow> doc_item list \<Rightarrow> (nat \<times> string) list" where
  "outline_with sty [] = []"
| "outline_with sty (Heading overlined c t # r) =
     (index_of (overlined, c) sty, t) # outline_with sty r"
| "outline_with sty (x # r) = outline_with sty r"

definition outline :: "doc_item list \<Rightarrow> (nat \<times> string) list" where
  "outline d = outline_with (styles_seen [] d) d"

text \<open>
  The subsections of the section titled \<open>t\<close>: the headings one level below it, up to
  the next heading that is not below it.
\<close>

fun subsections_in :: "string \<Rightarrow> (nat \<times> string) list \<Rightarrow> string list" where
  "subsections_in t [] = []"
| "subsections_in t ((l, u) # r) =
     (if u = t
      then map snd (filter (\<lambda>h. fst h = Suc l) (takeWhile (\<lambda>h. l < fst h) r))
      else subsections_in t r)"

definition subsections :: "src_item list \<Rightarrow> string \<Rightarrow> string list" where
  "subsections f t = subsections_in t (outline (doc_of f))"

text \<open>The autosummary entries and the cross references of a section's own body.\<close>

fun body_of :: "doc_item list \<Rightarrow> doc_item list" where
  "body_of [] = []"
| "body_of (Heading overlined c t # r) = []"
| "body_of (x # r) = x # body_of r"

fun section_body :: "string \<Rightarrow> doc_item list \<Rightarrow> doc_item list" where
  "section_body t [] = []"
| "section_body t (Heading overlined c u # r) =
     (if u = t then body_of r else section_body t r)"
| "section_body t (x # r) = section_body t r"

definition section_entries :: "src_item list \<Rightarrow> string \<Rightarrow> string list" where
  "section_entries f t = autosummary_entries (section_body t (doc_of f))"

definition section_xrefs :: "src_item list \<Rightarrow> string \<Rightarrow> xref list" where
  "section_xrefs f t = xrefs (section_body t (doc_of f))"

section \<open>The variational core the spec describes\<close>

text \<open>
  The manifest imports \<^verbatim>\<open>AlgorithmJob\<close> and \<^verbatim>\<open>VariationalAlgorithm\<close> and documents the
  \<^verbatim>\<open>gradients\<close> and \<^verbatim>\<open>optimizers\<close> subpackages, but their code is not among the source
  files. The claims about the Evaluation Job and the Driver are therefore settled
  against definitions that follow the words of the specification (sections 3, 4.1,
  4.2, 4.3, 4.4 and 4.5). The numbers a backend returns are left abstract: nothing
  below computes with them.
\<close>

subsection \<open>Evaluation Job\<close>

text \<open>
  Modelled from the spec: the states of an Evaluation Job (section 3), whose code
  (\<^verbatim>\<open>algorithm_job.py\<close>) is not among the source files:
  \<^verbatim>\<open>PENDING -> RUNNING -> {DONE, FAILED, CANCELLED}\<close>.
\<close>

datatype job_state = PENDING | RUNNING | DONE | FAILED | CANCELLED

text \<open>
  Modelled from the spec: the Result Payload (section 3), "scalar or vector of floats,
  plus optional variance/shot-count metadata"; the job's code is not among the source
  files.
\<close>

record payload =
  payload_values :: "real list"
  payload_variance :: "real option"
  payload_shots :: "nat option"

text \<open>
  Modelled from the spec: an Evaluation Job (section 3) "owns exactly one in-flight
  Evaluation Request", has a state, and carries the payload once one is attached and
  the captured failure once it has failed (section 4.1); its code is not among the
  source files.
\<close>

record 'r job =
  job_request :: 'r
  job_state :: job_state
  job_payload :: "payload option"
  job_failure :: "string option"

text \<open>
  Modelled from the spec: \<^verbatim>\<open>submit(request) -> Job\<close> (section 4.1); a fresh job is
  \<^verbatim>\<open>PENDING\<close> and has no payload. The job's code is not among the source files.
\<close>

definition submit :: "'r \<Rightarrow> 'r job" where
  "submit r = \<lparr>job_request = r, job_state = PENDING, job_payload = None, job_failure = None\<rparr>"

text \<open>
  Modelled from the spec: what can happen to a job (sections 3 and 4.1): the backend
  starts it, completes it with a payload or fails it with a cause, and the caller asks
  for cancellation. The job's code is not among the source files.
\<close>

datatype job_event = Started | Completed payload | Failed string | CancelRequested

text \<open>
  Modelled from the spec: "Terminal states" (section 3) are \<^verbatim>\<open>DONE\<close>, \<^verbatim>\<open>FAILED\<close>
  and \<^verbatim>\<open>CANCELLED\<close>; the job's code is not among the source files.
\<close>

fun is_terminal :: "job_state \<Rightarrow> bool" where
  "is_terminal DONE = True"
| "is_terminal FAILED = True"
| "is_terminal CANCELLED = True"
| "is_terminal s = False"

text \<open>
  Modelled from the spec: the transitions of section 3, the job's code not being among
  the source files. \<^verbatim>\<open>PENDING -> RUNNING\<close> on start; from \<^verbatim>\<open>RUNNING\<close>, completion
  goes to \<^verbatim>\<open>DONE\<close> and "attaches a Result Payload", failure goes to \<^verbatim>\<open>FAILED\<close> and
  keeps the cause, cancellation goes to \<^verbatim>\<open>CANCELLED\<close>. An event that the diagram has
  no arrow for leaves the job as it is (cancellation is "best-effort").
\<close>

fun job_step :: "'r job \<Rightarrow> job_event \<Rightarrow> 'r job" where
  "job_step j Started =
     (if job_state j = PENDING then j\<lparr>job_state := RUNNING\<rparr> else j)"
| "job_step j (Completed p) =
     (if job_state j = RUNNING then j\<lparr>job_state := DONE, job_payload := Some p\<rparr> else j)"
| "job_step j (Failed cause) =
     (if job_state j = RUNNING then j\<lparr>job_state := FAILED, job_failure := Some cause\<rparr>
      else j)"
| "job_step j CancelRequested =
     (if job_state j = RUNNING then j\<lparr>job_state := CANCELLED\<rparr> else j)"

text \<open>
  Modelled from the spec: the life of a job is a sequence of such events (section 3);
  the job's code is not among the source files.
\<close>

definition job_run :: "'r job \<Rightarrow> job_event list \<Rightarrow> 'r job" where
  "job_run j es = foldl job_step j es"

text \<open>
  Modelled from the spec: the arrows of the diagram
  \<^verbatim>\<open>PENDING -> RUNNING -> {DONE, FAILED, CANCELLED}\<close> of section 3, as pairs.
\<close>

definition allowed_transitions :: "(job_state \<times> job_state) list" where
  "allowed_transitions =
     [(PENDING, RUNNING), (RUNNING, DONE), (RUNNING, FAILED), (RUNNING, CANCELLED)]"

subsection \<open>Evaluation plans\<close>

text \<open>A Parameter Vector (section 3): an "ordered sequence of real numbers".\<close>

type_synonym params = "real list"





subsection \<open>Variational Algorithm Driver\<close>


















subsection \<open>Observing the jobs a run submits\<close>









subsection \<open>Concrete inputs\<close>

text \<open>
  A payload and two jobs: one started, one completed with the payload.
\<close>

definition example_payload :: payload where
  "example_payload =
     \<lparr>payload_values = [1 / 2], payload_variance = None, payload_shots = Some 1024\<rparr>"

definition running_job :: "params job" where
  "running_job = job_run (submit [0]) [Started]"

definition done_job :: "params job" where
  "done_job = job_run (submit [0]) [Started, Completed example_payload]"







section \<open>The export manifest: theorems\<close>

lemmas file_defs = qiskit_algorithms_init_def module_doc_def toctree_def
  toctree_nosignatures_def quantum_instance_ref_def

text \<open>
  C1. The file has exactly 384 lines. Its statements are the module docstring (lines 13
  to 299), nine \<^verbatim>\<open>from . import\<close> statements (lines 300 to 342) and the one
  assignment to \<^verbatim>\<open>__all__\<close> (lines 344 to 384); none of them defines a function or
  a class or is any other kind of statement. What stands outside the statements is
  the licence comment of lines 1 to 11 and empty lines.
\<close>

theorem init_is_export_manifest:
  "file_lines qiskit_algorithms_init = 384
   \<and> stmt_spans qiskit_algorithms_init =
       [(13, 299), (300, 300), (301, 301), (302, 302), (303, 303), (304, 316),
        (318, 325), (326, 326), (327, 327), (329, 342), (344, 384)]
   \<and> module_docstring (statements qiskit_algorithms_init) = Some module_doc
   \<and> list_all (\<lambda>s. is_docstring s \<or> is_import s \<or> is_all_assignment s)
        (statements qiskit_algorithms_init)
   \<and> length (filter is_docstring (statements qiskit_algorithms_init)) = 1
   \<and> length (filter is_import (statements qiskit_algorithms_init)) = 9
   \<and> length (filter is_all_assignment (statements qiskit_algorithms_init)) = 1
   \<and> \<not> list_ex defines_code (statements qiskit_algorithms_init)"
  by (simp add: file_lines_def stmt_spans_def file_defs)

text \<open>
  C2, evaluated on the file. The docstring lists \<^verbatim>\<open>VQE\<close> and \<^verbatim>\<open>QAOA\<close> as
  members of the package (autosummary of "Legacy Minimum Eigensolvers", under
  \<^verbatim>\<open>currentmodule:: qiskit_algorithms\<close>), but the package root exports neither;
  \<^verbatim>\<open>VarQITE\<close>, \<^verbatim>\<open>VarQRTE\<close>, \<^verbatim>\<open>PVQD\<close> and \<^verbatim>\<open>AlgorithmJob\<close> are exported.
\<close>

theorem VQE_QAOA_documented_not_exported:
  "listed qiskit_algorithms_init ''VQE'' \<and> listed qiskit_algorithms_init ''QAOA''
   \<and> ''VQE'' \<in> set (section_entries qiskit_algorithms_init ''Legacy Minimum Eigensolvers'')
   \<and> ''QAOA'' \<in> set (section_entries qiskit_algorithms_init ''Legacy Minimum Eigensolvers'')
   \<and> \<not> exported qiskit_algorithms_init ''VQE''
   \<and> \<not> exported qiskit_algorithms_init ''QAOA''
   \<and> list_all (exported qiskit_algorithms_init)
        [''VarQITE'', ''VarQRTE'', ''PVQD'', ''AlgorithmJob'']"
  by (simp add: listed_def exported_def section_entries_def doc_of_def imported_names_def
      module_all_def file_defs)

text \<open>
  C3 as stated fails: it is not the case that each of the six names of the taxonomy is
  exported by the package root.
\<close>

theorem taxonomy_not_exported:
  "\<not> list_all (exported qiskit_algorithms_init)
       [''SubmissionError'', ''ExecutionFailure'', ''CancellationError'', ''TimeoutError'',
        ''ConvergenceFailure'', ''BudgetExceeded'']"
  by (simp add: exported_def imported_names_def module_all_def file_defs)

text \<open>
  C3, amended. The error surface of the package root is the single exception type
  \<^verbatim>\<open>AlgorithmError\<close>: it is the one name imported from \<^verbatim>\<open>.exceptions\<close>, the one
  entry of the docstring's "Exceptions" section, and it is exported. None of the six
  names of the taxonomy is imported, listed in \<^verbatim>\<open>__all__\<close> or documented.
\<close>

theorem error_surface_is_AlgorithmError:
  "imported_from qiskit_algorithms_init ''exceptions'' = [''AlgorithmError'']
   \<and> section_entries qiskit_algorithms_init ''Exceptions'' = [''AlgorithmError'']
   \<and> exported qiskit_algorithms_init ''AlgorithmError''
   \<and> \<not> list_ex (\<lambda>n. n \<in> set (imported_names qiskit_algorithms_init)
                     \<or> n \<in> set (module_all qiskit_algorithms_init)
                     \<or> documented qiskit_algorithms_init n)
        [''SubmissionError'', ''ExecutionFailure'', ''CancellationError'', ''TimeoutError'',
         ''ConvergenceFailure'', ''BudgetExceeded'']"
  by (simp add: imported_from_def section_entries_def exported_def documented_def listed_def
      referenced_def xref_name_def doc_of_def imported_names_def module_all_def file_defs)

text \<open>
  C4. Each of the sections "Eigensolvers", "Time Evolvers" and "Minimum Eigensolvers"
  of the docstring has a "Primitive-based" subsection and a "Legacy" subsection, and
  the paragraph of each of these six subsections refers to \<^verbatim>\<open>QuantumInstance\<close> (the
  primitive-based ones as what they replace, the legacy ones as what they rest on).
\<close>

theorem legacy_and_primitive_groups:
  "subsections qiskit_algorithms_init ''Eigensolvers'' =
     [''Primitive-based Eigensolvers'', ''Legacy Eigensolvers'']
   \<and> subsections qiskit_algorithms_init ''Time Evolvers'' =
     [''Primitive-based Time Evolvers'', ''Legacy Time Evolvers'',
      ''Variational Quantum Time Evolution'',
      ''Trotterization-based Quantum Real Time Evolution'']
   \<and> subsections qiskit_algorithms_init ''Minimum Eigensolvers'' =
     [''Primitive-based Minimum Eigensolvers'', ''Legacy Minimum Eigensolvers'']
   \<and> list_all (\<lambda>t. quantum_instance_ref \<in> set (section_xrefs qiskit_algorithms_init t))
       [''Primitive-based Eigensolvers'', ''Legacy Eigensolvers'',
        ''Primitive-based Time Evolvers'', ''Legacy Time Evolvers'',
        ''Primitive-based Minimum Eigensolvers'', ''Legacy Minimum Eigensolvers'']"
  by (simp add: subsections_def outline_def section_xrefs_def doc_of_def file_defs)

text \<open>
  C9. The module assigns \<^verbatim>\<open>__all__\<close>; each of its 39 strings is a name a module-level
  import binds, and no string occurs twice.
\<close>

theorem all_names_imported_and_distinct:
  "dunder_all (statements qiskit_algorithms_init) = Some (module_all qiskit_algorithms_init)
   \<and> length (module_all qiskit_algorithms_init) = 39
   \<and> set (module_all qiskit_algorithms_init) \<subseteq> set (imported_names qiskit_algorithms_init)
   \<and> distinct (module_all qiskit_algorithms_init)"
  by (simp add: imported_names_def module_all_def file_defs)

text \<open>
  C10. Each of the ten names is in the documented surface of the docstring (an
  autosummary entry, or for \<^verbatim>\<open>QuantumInstance\<close> the target of a cross reference
  \<^verbatim>\<open>qiskit_algorithms.QuantumInstance\<close>), and none is imported at module level or a
  member of \<^verbatim>\<open>__all__\<close>.
\<close>

theorem documented_names_not_exported:
  "list_all (\<lambda>n. documented qiskit_algorithms_init n
                 \<and> n \<notin> set (imported_names qiskit_algorithms_init)
                 \<and> n \<notin> set (module_all qiskit_algorithms_init)
                 \<and> \<not> exported qiskit_algorithms_init n)
     [''VQE'', ''QAOA'', ''VQD'', ''Eigensolver'', ''NumPyEigensolver'', ''MinimumEigensolver'',
      ''NumPyMinimumEigensolver'', ''TrotterQRTE'', ''eval_observables'', ''QuantumInstance'']"
  by (simp add: exported_def documented_def listed_def
      referenced_def xref_name_def doc_of_def imported_names_def module_all_def file_defs)

section \<open>The variational core: theorems\<close>

subsection \<open>Evaluation Job\<close>

lemma job_step_moves:
  "job_state (job_step j e) = job_state j
   \<or> (job_state j, job_state (job_step j e)) \<in> set allowed_transitions"
  by (cases e) (auto simp: allowed_transitions_def)

lemma job_step_terminal: "is_terminal (job_state j) \<Longrightarrow> job_step j e = j"
  by (cases e; cases "job_state j") auto

lemma job_run_terminal: "is_terminal (job_state j) \<Longrightarrow> job_run j es = j"
  unfolding job_run_def by (induction es) (auto simp: job_step_terminal)

lemma job_step_payload:
  "job_payload (job_step j e) \<noteq> job_payload j \<Longrightarrow>
     job_state j = RUNNING \<and> job_state (job_step j e) = DONE"
  by (cases e) (auto split: if_splits)

lemma job_step_done_payload:
  "job_state j = RUNNING \<Longrightarrow> job_state (job_step j e) = DONE \<Longrightarrow>
     \<exists>p. e = Completed p \<and> job_payload (job_step j e) = Some p"
  by (cases e) (auto split: if_splits)

lemma job_step_payload_iff_done:
  "(job_payload j \<noteq> None) = (job_state j = DONE) \<Longrightarrow>
   (job_payload (job_step j e) \<noteq> None) = (job_state (job_step j e) = DONE)"
  by (cases e) (auto split: if_splits)

lemma job_run_payload_iff_done:
  "(job_payload j \<noteq> None) = (job_state j = DONE) \<Longrightarrow>
   (job_payload (job_run j es) \<noteq> None) = (job_state (job_run j es) = DONE)"
  unfolding job_run_def
proof (induction es arbitrary: j)
  case Nil
  then show ?case by simp
next
  case (Cons e es)
  have "(job_payload (job_step j e) \<noteq> None) = (job_state (job_step j e) = DONE)"
    by (rule job_step_payload_iff_done[OF Cons.prems])
  from Cons.IH[OF this] show ?case by simp
qed

text \<open>
  C6. Whatever happens to a job \<open>j\<close>: an event changes its state only along an arrow
  of \<^verbatim>\<open>PENDING -> RUNNING -> {DONE, FAILED, CANCELLED}\<close>; a job in a terminal state is
  left as it is by every event and every sequence of events; the payload changes only
  on the step from \<^verbatim>\<open>RUNNING\<close> to \<^verbatim>\<open>DONE\<close>, and that step is a completion, which
  attaches its payload; so a submitted job has a payload exactly when it is \<^verbatim>\<open>DONE\<close>.
\<close>

theorem job_state_machine:
  fixes j :: "'r job"
  shows "(job_state (job_step j e) \<noteq> job_state j \<longrightarrow>
            (job_state j, job_state (job_step j e)) \<in> set allowed_transitions)
   \<and> (is_terminal (job_state j) \<longrightarrow> job_step j e = j \<and> job_run j es = j)
   \<and> (job_payload (job_step j e) \<noteq> job_payload j \<longrightarrow>
         job_state j = RUNNING \<and> job_state (job_step j e) = DONE)
   \<and> (job_state j = RUNNING \<and> job_state (job_step j e) = DONE \<longrightarrow>
         (\<exists>p. e = Completed p \<and> job_payload (job_step j e) = Some p))
   \<and> ((job_payload (job_run (submit r) es) \<noteq> None)
        = (job_state (job_run (submit r) es) = DONE))"
proof -
  have "(job_payload (submit r) \<noteq> None) = (job_state (submit r) = DONE)"
    by (simp add: submit_def)
  from job_run_payload_iff_done[OF this] show ?thesis
    using job_step_moves[of j e] job_step_terminal[of j e] job_run_terminal[of j es]
      job_step_payload[of j e] job_step_done_payload[of j e]
    by blast
qed

text \<open>
  The theorem at a running job that completes, and at the completed job, which a
  late cancellation, failure or start leaves as it is.
\<close>

theorem job_state_machine_witness:
  "job_state running_job = RUNNING
   \<and> job_state (job_step running_job (Completed example_payload)) = DONE
   \<and> job_payload (job_step running_job (Completed example_payload)) = Some example_payload
   \<and> job_payload running_job = None
   \<and> is_terminal (job_state done_job)
   \<and> job_step done_job CancelRequested = done_job
   \<and> job_run done_job [Failed ''late'', Started, CancelRequested] = done_job"
  using job_state_machine[of running_job "Completed example_payload" "[]" "[0]"]
    job_state_machine[of done_job CancelRequested
      "[Failed ''late'', Started, CancelRequested]" "[0]"]
  by (simp add: running_job_def done_job_def job_run_def submit_def)

subsection \<open>Variational Algorithm Driver\<close>













end
